theory Spec2Isabelle
  imports Complex_Main
begin

section \<open>The feature-selection notebook\<close>

text \<open>
  The repository is one Jupyter notebook, \<^verbatim>\<open>FeatureSelection.ipynb\<close>. Its code cells are
  straight-line Python: they draw a small random table with numpy, hand tables to
  scikit-learn's scalers and selectors, and print or plot what comes back. Two things are
  the notebook's own and are modelled here: the arithmetic of the cell that builds
  \<^verbatim>\<open>test_data\<close>, and the control structure of the cells (which library operations run, in
  which order, and what happens when one of them raises). numpy's random generator, the
  C library's exponential, scikit-learn and the IPython shell are outside the notebook:
  the generator enters as the arrays it draws, and the others as parameters, one for
  \<^verbatim>\<open>np.exp\<close>, one that interprets each library operation, one that interprets a cell magic.
\<close>

subsection \<open>Python floats\<close>

text \<open>
  A Python float is an IEEE-754 binary64 number: a real with a significand of 53 bits.
  Every arithmetic operation computes the exact result and rounds it to the nearest such
  number, ties going to the one whose last significand bit is even. \<open>rne\<close> rounds a real
  to the nearest integer in that way, and \<open>round53\<close> rounds to 53 significant bits. The
  exponent range is not modelled: the values of the notebook's data cell have magnitudes
  between \<open>2\<^sup>-\<^sup>5\<^sup>3\<close> and \<open>2\<^sup>4\<close> (or are zero), far from overflow and from subnormal numbers.
\<close>

definition rne :: "real \<Rightarrow> int" where
  "rne y = (let f = \<lfloor>y\<rfloor>; d = y - of_int f
            in if d < 1/2 then f else if 1/2 < d then f + 1
               else if even f then f else f + 1)"

definition round53 :: "real \<Rightarrow> real" where
  "round53 x = (if x = 0 then 0
     else let u = 2 powr (of_int (\<lfloor>log 2 \<bar>x\<bar>\<rfloor> - 52))
          in of_int (rne (x / u)) * u)"

definition is_double :: "real \<Rightarrow> bool" where
  "is_double x \<longleftrightarrow> round53 x = x"

definition fmul :: "real \<Rightarrow> real \<Rightarrow> real" where
  "fmul a b = round53 (a * b)"

definition fadd :: "real \<Rightarrow> real \<Rightarrow> real" where
  "fadd a b = round53 (a + b)"

definition fdiv :: "real \<Rightarrow> real \<Rightarrow> real" where
  "fdiv a b = round53 (a / b)"

text \<open>
  \<^verbatim>\<open>np.exp\<close> is the C library's exponential on floats. It is not correctly rounded, and its
  results differ from one library to the next, so it is a parameter \<open>np_exp\<close> of the
  cell. What is assumed of it is its accuracy where the cell applies it: a distance to the
  exponential of at most \<open>2\<^sup>-\<^sup>5\<^sup>2\<close> of the value, which an error of one unit in the last place
  stays within. \<open>exp_rounded\<close>, the correctly rounded exponential, is one function of that
  accuracy; it serves to run the cell and is not taken to be numpy's.
\<close>

definition exp_accurate :: "(real \<Rightarrow> real) \<Rightarrow> bool" where
  "exp_accurate f \<longleftrightarrow> (\<forall>y. 3/2 \<le> y \<and> y \<le> 5/2 \<longrightarrow> \<bar>f y - exp y\<bar> \<le> exp y / 2^52)"

definition exp_rounded :: "real \<Rightarrow> real" where
  "exp_rounded y = round53 (exp y)"

subsection \<open>The cell that builds \<^verbatim>\<open>test_data\<close>\<close>

text \<open>
  \<^verbatim>\<open>
  rows = 100
  test_data = np.empty((rows,4))
  test_data[:,0] = np.random.random(rows) * 2 + 1.5
  test_data[:,1] = np.random.randn(rows)
  test_data[:,2] = np.random.randint(-50, 25, rows)/10
  test_data[:,3] = np.exp(np.random.random(rows)+1.5)
  \<close>
  A two-dimensional array is the list of its rows. \<^verbatim>\<open>np.empty\<close> allocates without
  initialising, so the table starts with whatever the memory held: the parameter \<open>mem\<close>.
  The four arrays that the generator returns are the record \<open>draws\<close>; \<open>numpy_draws\<close> is
  what numpy documents about them: each has the requested length, \<^verbatim>\<open>random\<close> returns floats
  in \<open>[0, 1)\<close>, \<^verbatim>\<open>randn\<close> returns floats, and \<^verbatim>\<open>randint(-50, 25, _)\<close> returns integers \<open>n\<close> with
  \<open>-50 \<le> n < 25\<close>.
\<close>

datatype error = IndexError | ValueError

definition and_then :: "'e + 'a \<Rightarrow> ('a \<Rightarrow> 'e + 'b) \<Rightarrow> 'e + 'b" where
  "and_then r f = (case r of Inl e \<Rightarrow> Inl e | Inr x \<Rightarrow> f x)"

definition rows :: nat where
  "rows = 100"

definition np_empty :: "nat \<Rightarrow> nat \<Rightarrow> (nat \<Rightarrow> nat \<Rightarrow> real) \<Rightarrow> real list list" where
  "np_empty r c mem = map (\<lambda>i. map (mem i) [0..<c]) [0..<r]"

text \<open>
  \<^verbatim>\<open>t[:,j] = xs\<close>: the column index must exist; \<open>xs\<close> must have one entry per row, or one
  entry in all, which numpy then broadcasts to every row; otherwise numpy raises.
\<close>

definition set_col :: "nat \<Rightarrow> real list \<Rightarrow> real list list \<Rightarrow> error + real list list" where
  "set_col j xs t =
     (if \<exists>row\<in>set t. length row \<le> j then Inl IndexError
      else if length xs = length t then Inr (map2 (\<lambda>row x. row[j := x]) t xs)
      else if length xs = 1 then Inr (map (\<lambda>row. row[j := hd xs]) t)
      else Inl ValueError)"

record draws =
  random_0 :: "real list"
  randn_1 :: "real list"
  randint_2 :: "int list"
  random_3 :: "real list"

definition numpy_draws :: "draws \<Rightarrow> bool" where
  "numpy_draws d \<longleftrightarrow>
     length (random_0 d) = rows \<and> (\<forall>x\<in>set (random_0 d). is_double x \<and> 0 \<le> x \<and> x < 1) \<and>
     length (randn_1 d) = rows \<and> (\<forall>x\<in>set (randn_1 d). is_double x) \<and>
     length (randint_2 d) = rows \<and> (\<forall>n\<in>set (randint_2 d). - 50 \<le> n \<and> n < 25) \<and>
     length (random_3 d) = rows \<and> (\<forall>x\<in>set (random_3 d). is_double x \<and> 0 \<le> x \<and> x < 1)"

definition test_data ::
  "(real \<Rightarrow> real) \<Rightarrow> (nat \<Rightarrow> nat \<Rightarrow> real) \<Rightarrow> draws \<Rightarrow> error + real list list" where
  "test_data np_exp mem d =
     and_then (set_col 0 (map (\<lambda>x. fadd (fmul x 2) (3/2)) (random_0 d)) (np_empty rows 4 mem)) (\<lambda>t.
     and_then (set_col 1 (randn_1 d) t) (\<lambda>t.
     and_then (set_col 2 (map (\<lambda>n. fdiv (of_int n) 10) (randint_2 d)) t) (\<lambda>t.
     set_col 3 (map (\<lambda>x. np_exp (fadd x (3/2))) (random_3 d)) t)))"

text \<open>Two concrete outcomes of the generator, used to run the cell.\<close>

definition typical_draws :: draws where
  "typical_draws = \<lparr>random_0 = replicate 100 (1/2), randn_1 = replicate 100 (- (1/4)),
                     randint_2 = replicate 100 (- 50), random_3 = replicate 100 (1/4)\<rparr>"

definition extreme_draws :: draws where
  "extreme_draws = \<lparr>random_0 = replicate 100 (1 - 1/2^53), randn_1 = replicate 100 0,
                     randint_2 = replicate 100 3, random_3 = replicate 100 0\<rparr>"

subsection \<open>The cells as sequences of library operations\<close>

text \<open>
  No code cell of the notebook defines a function, branches or loops: each is a sequence
  of simple statements, and each statement enters library code a number of times, in the
  order Python evaluates it (the callee and the arguments of a call from left to right
  before the call, the right-hand side of an assignment before the store). An \<open>action\<close> is
  one such entry: a line magic of the shell, an import, a call of a function, constructor
  or method, or another operation on a library object (an operator, a subscript, an
  attribute read, the formatting inside an f-string). Binding a name and building a tuple
  stay inside the interpreter and are no actions. The strings are the source's own words.

  What an action does is not the notebook's business: \<open>lib\<close> maps an action and the state
  of the session (the variables, the output so far) to the next state, or to the
  exception the library raises. Python catches an exception with the \<^verbatim>\<open>try\<close> statement
  (a \<^verbatim>\<open>with\<close> statement, whose context manager may swallow an exception, is defined as
  one), so a statement is an action or a \<^verbatim>\<open>try\<close> with its body and its handler. An
  exception that leaves a statement ends the cell; the cell's result is then the
  exception, together with the state in which it was raised.

  The last cell is headed by the cell magic \<^verbatim>\<open>%%time\<close>. The shell turns such a cell into one
  call that hands the cell's body to the magic, and the magic runs the body: the third
  kind of statement, \<open>CellMagic\<close>. What the magic does with the body and with an exception
  of the body is the shell's code, the parameter \<open>sh\<close>, which gets the name of the magic,
  the body as a function of the state, and the state.

  The display of the value of a cell's last expression is no action: the shell does that
  after the cell has returned.
\<close>

datatype action = Magic string | Import string | Call string | Op string

datatype stmt = Do action | Try "stmt list" "stmt list" | CellMagic string "stmt list"

fun exec :: "(action \<Rightarrow> 's \<Rightarrow> 'e + 's) \<Rightarrow>
              (string \<Rightarrow> ('s \<Rightarrow> ('e \<times> 's) + 's) \<Rightarrow> 's \<Rightarrow> ('e \<times> 's) + 's) \<Rightarrow>
              stmt \<Rightarrow> 's \<Rightarrow> ('e \<times> 's) + 's"
  and exec_list :: "(action \<Rightarrow> 's \<Rightarrow> 'e + 's) \<Rightarrow>
              (string \<Rightarrow> ('s \<Rightarrow> ('e \<times> 's) + 's) \<Rightarrow> 's \<Rightarrow> ('e \<times> 's) + 's) \<Rightarrow>
              stmt list \<Rightarrow> 's \<Rightarrow> ('e \<times> 's) + 's" where
  "exec lib sh (Do a) s = (case lib a s of Inl e \<Rightarrow> Inl (e, s) | Inr s' \<Rightarrow> Inr s')"
| "exec lib sh (Try body handler) s =
     (case exec_list lib sh body s of Inl (e, s') \<Rightarrow> exec_list lib sh handler s'
      | Inr s' \<Rightarrow> Inr s')"
| "exec lib sh (CellMagic name body) s = sh name (\<lambda>s0. exec_list lib sh body s0) s"
| "exec_list lib sh [] s = Inr s"
| "exec_list lib sh (x # xs) s =
     (case exec lib sh x s of Inl err \<Rightarrow> Inl err | Inr s' \<Rightarrow> exec_list lib sh xs s')"

fun is_action :: "stmt \<Rightarrow> bool" where
  "is_action (Do a) = True"
| "is_action (Try body handler) = False"
| "is_action (CellMagic name body) = False"

text \<open>
  Two shells. IPython's \<^verbatim>\<open>%%time\<close> up to version 8 runs the body as
  \<^verbatim>\<open>try: exec(code, glob, local_ns)\<close> \<^verbatim>\<open>except: self.shell.showtraceback(); return\<close>:
  it catches whatever the body raises, shows it, and returns normally (what it prints is
  not modelled). Later versions let the exception through.
\<close>

definition catching_timer :: "string \<Rightarrow> ('s \<Rightarrow> ('e \<times> 's) + 's) \<Rightarrow> 's \<Rightarrow> ('e \<times> 's) + 's" where
  "catching_timer name body s = (case body s of Inl (e, s') \<Rightarrow> Inr s' | Inr s' \<Rightarrow> Inr s')"

definition passing_timer :: "string \<Rightarrow> ('s \<Rightarrow> ('e \<times> 's) + 's) \<Rightarrow> 's \<Rightarrow> ('e \<times> 's) + 's" where
  "passing_timer name body s = body s"

text \<open>The thirty-four code cells, in the notebook's order.\<close>

definition notebook :: "stmt list list" where
  "notebook =
    [ \<comment> \<open>\<^verbatim>\<open>%matplotlib inline\<close>; \<^verbatim>\<open>from src.setup import *\<close>\<close>
      [Do (Magic ''matplotlib inline''), Do (Import ''src.setup'')],
      \<comment> \<open>the cell that builds \<^verbatim>\<open>test_data\<close> and prints its first rows\<close>
      [Do (Call ''np.empty''),
       Do (Call ''np.random.random''), Do (Op ''* 2''), Do (Op ''+ 1.5''),
       Do (Op ''test_data[:,0] =''),
       Do (Call ''np.random.randn''), Do (Op ''test_data[:,1] =''),
       Do (Call ''np.random.randint''), Do (Op ''/10''), Do (Op ''test_data[:,2] =''),
       Do (Call ''np.random.random''), Do (Op ''+1.5''), Do (Call ''np.exp''),
       Do (Op ''test_data[:,3] =''),
       Do (Op ''test_data[:5]''), Do (Call ''print'')],
      \<comment> \<open>\<^verbatim>\<open>pd.DataFrame(test_data)\<close>: summary, density plot, histogram\<close>
      [Do (Call ''pd.DataFrame''), Do (Call ''.describe''), Do (Call ''.head'')],
      [Do (Call ''pd.DataFrame''), Do (Call ''.plot'')],
      [Do (Call ''pd.DataFrame''), Do (Call ''.plot'')],
      \<comment> \<open>\<^verbatim>\<open>scaled1 = StandardScaler().fit_transform(test_data)\<close> and its three displays\<close>
      [Do (Import ''sklearn.preprocessing''), Do (Call ''StandardScaler''),
       Do (Call ''.fit_transform''), Do (Op ''scaled1[:5]'')],
      [Do (Call ''pd.DataFrame''), Do (Call ''.describe''), Do (Call ''.head'')],
      [Do (Call ''pd.DataFrame''), Do (Call ''.plot'')],
      [Do (Call ''pd.DataFrame''), Do (Call ''.plot'')],
      \<comment> \<open>\<^verbatim>\<open>scaled2 = RobustScaler().fit_transform(test_data)\<close>\<close>
      [Do (Import ''sklearn.preprocessing''), Do (Call ''RobustScaler''),
       Do (Call ''.fit_transform''), Do (Op ''scaled2[:5]'')],
      [Do (Call ''pd.DataFrame''), Do (Call ''.describe''), Do (Call ''.head'')],
      [Do (Call ''pd.DataFrame''), Do (Call ''.plot'')],
      [Do (Call ''pd.DataFrame''), Do (Call ''.plot'')],
      \<comment> \<open>\<^verbatim>\<open>scaled3 = MinMaxScaler().fit_transform(test_data)\<close>\<close>
      [Do (Import ''sklearn.preprocessing''), Do (Call ''MinMaxScaler''),
       Do (Call ''.fit_transform''), Do (Op ''scaled3[:5]'')],
      [Do (Call ''pd.DataFrame''), Do (Call ''.describe'')],
      [Do (Call ''pd.DataFrame''), Do (Call ''.plot'')],
      [Do (Call ''pd.DataFrame''), Do (Call ''.plot'')],
      \<comment> \<open>\<^verbatim>\<open>scaled4 = MaxAbsScaler().fit_transform(test_data)\<close>\<close>
      [Do (Import ''sklearn.preprocessing''), Do (Call ''MaxAbsScaler''),
       Do (Call ''.fit_transform''), Do (Op ''scaled4[:5]'')],
      [Do (Call ''pd.DataFrame''), Do (Call ''.describe'')],
      [Do (Call ''pd.DataFrame''), Do (Call ''.plot'')],
      [Do (Call ''pd.DataFrame''), Do (Call ''.plot'')],
      \<comment> \<open>\<^verbatim>\<open>cancer = load_breast_cancer()\<close>\<close>
      [Do (Call ''load_breast_cancer'')],
      \<comment> \<open>\<^verbatim>\<open>SelectKBest(chi2, k=5)\<close> on the raw table, then the two shapes\<close>
      [Do (Import ''sklearn.feature_selection''), Do (Import ''sklearn.feature_selection''),
       Do (Call ''SelectKBest''),
       Do (Op ''cancer.data''), Do (Op ''cancer.target''), Do (Call ''selector.fit_transform''),
       Do (Op ''cancer.data''), Do (Op ''.shape''), Do (Op ''X_new.shape'')],
      \<comment> \<open>\<^verbatim>\<open>kbest\<close>: the scores as a sorted series\<close>
      [Do (Op ''selector.scores_''), Do (Op ''cancer.feature_names''), Do (Call ''pd.Series''),
       Do (Call ''.sort_values''), Do (Call ''kbest.head'')],
      \<comment> \<open>\<^verbatim>\<open>lr, knn = LinearRegression(), KNeighborsClassifier()\<close>\<close>
      [Do (Import ''sklearn.linear_model''), Do (Import ''sklearn.neighbors''),
       Do (Call ''LinearRegression''), Do (Call ''KNeighborsClassifier'')],
      \<comment> \<open>both models on the raw features\<close>
      [Do (Op ''cancer.data''), Do (Op ''cancer.target''), Do (Call ''train_test_split''),
       Do (Call ''print''),
       Do (Call ''lr.fit''), Do (Call ''.score''), Do (Call ''print''),
       Do (Call ''knn.fit''), Do (Call ''.score''), Do (Call ''print'')],
      \<comment> \<open>both models on the five selected features\<close>
      [Do (Op ''cancer.target''), Do (Call ''train_test_split''),
       Do (Call ''print''),
       Do (Call ''lr.fit''), Do (Call ''.score''), Do (Call ''print''),
       Do (Call ''knn.fit''), Do (Call ''.score''), Do (Call ''print'')],
      \<comment> \<open>\<^verbatim>\<open>RFE(estimator=lr, n_features_to_select=5, step=1)\<close> and its ranking\<close>
      [Do (Import ''sklearn.feature_selection''), Do (Call ''LinearRegression''), Do (Call ''RFE''),
       Do (Op ''cancer.data''), Do (Op ''cancer.target''), Do (Call ''rfe.fit''),
       Do (Op ''rfe.ranking_''), Do (Op ''cancer.feature_names''), Do (Call ''pd.Series''),
       Do (Call ''.sort_values''), Do (Call ''.head'')],
      \<comment> \<open>\<^verbatim>\<open>RFECV(estimator=rf)\<close> and the plot of its scores\<close>
      [Do (Import ''matplotlib.pyplot''), Do (Import ''sklearn.ensemble''),
       Do (Import ''sklearn.feature_selection''),
       Do (Call ''RandomForestClassifier''), Do (Call ''RFECV''),
       Do (Op ''cancer.data''), Do (Op ''cancer.target''), Do (Call ''rfecv.fit''),
       Do (Call ''plt.figure''), Do (Call ''plt.xlabel''), Do (Call ''plt.ylabel''),
       Do (Op ''rfecv.grid_scores_''), Do (Call ''len''), Do (Op ''+ 1''), Do (Call ''range''),
       Do (Op ''rfecv.grid_scores_''), Do (Call ''plt.plot''),
       Do (Op ''rfecv.n_features_''), Do (Op ''%''), Do (Call ''plt.title''),
       Do (Call ''plt.show'')],
      \<comment> \<open>\<^verbatim>\<open>X_poly = poly.fit_transform(cancer.data)\<close>\<close>
      [Do (Import ''sklearn.preprocessing''), Do (Call ''PolynomialFeatures''),
       Do (Op ''cancer.data''), Do (Call ''poly.fit_transform''),
       Do (Call ''RandomForestClassifier'')],
      \<comment> \<open>the forest on the raw features\<close>
      [Do (Op ''cancer.data''), Do (Op ''cancer.target''), Do (Call ''train_test_split''),
       Do (Call ''rfc.fit''), Do (Call ''.score''),
       Do (Op ''1-acc''), Do (Op ''*100''), Do (Op ''format''), Do (Call ''print'')],
      \<comment> \<open>\<^verbatim>\<open>X_poly_scaled = MinMaxScaler().fit_transform(X_poly)\<close> and the forest on it\<close>
      [Do (Import ''sklearn.preprocessing''), Do (Call ''MinMaxScaler''),
       Do (Call ''.fit_transform''),
       Do (Op ''cancer.target''), Do (Call ''train_test_split''),
       Do (Call ''rfc.fit''), Do (Call ''.score''),
       Do (Op ''1-acc''), Do (Op ''*100''), Do (Op ''format''), Do (Call ''print'')],
      \<comment> \<open>\<^verbatim>\<open>SelectKBest(chi2, k=100)\<close> on the scaled polynomial features\<close>
      [Do (Import ''sklearn.feature_selection''), Do (Call ''SelectKBest''),
       Do (Op ''cancer.target''), Do (Call ''selector.fit_transform''),
       Do (Op ''cancer.target''), Do (Call ''train_test_split''),
       Do (Call ''rfc.fit''), Do (Call ''.score''),
       Do (Op ''1-acc''), Do (Op ''*100''), Do (Op ''format''), Do (Call ''print'')],
      \<comment> \<open>\<^verbatim>\<open>%%time\<close>: \<^verbatim>\<open>RFECV(estimator=rfc, n_jobs=-1)\<close> on the scaled polynomial features\<close>
      [CellMagic ''time''
        [Do (Op ''cancer.target''), Do (Call ''train_test_split''),
         Do (Call ''RFECV''), Do (Call ''rfecv.fit''), Do (Call ''.score''),
         Do (Op ''rfecv.n_features_''), Do (Op ''format''),
         Do (Op ''X_poly_scaled.shape''), Do (Op ''[1]''), Do (Op ''format''),
         Do (Op ''1-acc''), Do (Op ''*100''), Do (Op ''format''), Do (Call ''print'')]]
    ]"

text \<open>
  A library for running a cell: every action succeeds and is counted, except the action
  \<open>bad\<close>, which raises.
\<close>

definition fails_at :: "action \<Rightarrow> action \<Rightarrow> nat \<Rightarrow> string + nat" where
  "fails_at bad a n = (if a = bad then Inl ''ValueError'' else Inr (Suc n))"

section \<open>Properties\<close>

subsection \<open>Rounding\<close>

text \<open>
  Rounding to the nearest integer, and with it rounding to 53 bits, is monotone, odd, and
  leaves representable numbers alone. \<open>round53_eval\<close> computes it once the binade of the
  argument is known.
\<close>

lemma rne_of_int: "rne (of_int k) = k"
  by (simp add: rne_def)

lemma rne_floor_bounds: "\<lfloor>y\<rfloor> \<le> rne y \<and> rne y \<le> \<lfloor>y\<rfloor> + 1"
  by (simp add: rne_def Let_def)

lemma rne_mono: "y \<le> z \<Longrightarrow> rne y \<le> rne z"
proof -
  assume yz: "y \<le> z"
  have fg: "\<lfloor>y\<rfloor> \<le> \<lfloor>z\<rfloor>" using yz by (rule floor_mono)
  show ?thesis
  proof (cases "\<lfloor>y\<rfloor> = \<lfloor>z\<rfloor>")
    case True
    with yz show ?thesis
      by (auto simp: rne_def Let_def)
  next
    case False
    with fg have "\<lfloor>y\<rfloor> + 1 \<le> \<lfloor>z\<rfloor>" by simp
    with rne_floor_bounds [of y] rne_floor_bounds [of z] show ?thesis by linarith
  qed
qed

lemma rne_minus: "rne (- y) = - rne y"
proof (cases "y = of_int \<lfloor>y\<rfloor>")
  case True
  then obtain k where "y = of_int k" ..
  then show ?thesis by (simp add: rne_of_int flip: of_int_minus)
next
  case False
  have "\<lceil>y\<rceil> = \<lfloor>y\<rfloor> + 1" using False by (simp add: ceiling_altdef)
  then have fl: "\<lfloor>- y\<rfloor> = - \<lfloor>y\<rfloor> - 1" by (simp add: ceiling_def)
  have "y - of_int \<lfloor>y\<rfloor> \<noteq> 0" using False by simp
  then show ?thesis
    unfolding rne_def Let_def fl by (auto simp: algebra_simps)
qed

lemma binade:
  assumes "0 < x"
  shows "2 powr of_int \<lfloor>log 2 x\<rfloor> \<le> x \<and> x < 2 powr of_int (\<lfloor>log 2 x\<rfloor> + 1)"
  using floor_log_eq_powr_iff [of x 2 "\<lfloor>log 2 x\<rfloor>"] assms by simp

lemma round53_eval:
  assumes "2 powr of_int k \<le> \<bar>x\<bar>" "\<bar>x\<bar> < 2 powr of_int (k + 1)"
  shows "round53 x = of_int (rne (x / 2 powr of_int (k - 52))) * 2 powr of_int (k - 52)"
proof -
  have "0 < \<bar>x\<bar>" using assms(1) powr_gt_zero [of 2 "of_int k"] by linarith
  then have "\<lfloor>log 2 \<bar>x\<bar>\<rfloor> = k" using assms by (simp add: floor_log_eq_powr_iff)
  moreover have "x \<noteq> 0" using \<open>0 < \<bar>x\<bar>\<close> by simp
  ultimately show ?thesis by (simp add: round53_def Let_def)
qed

lemma round53_minus: "round53 (- x) = - round53 x"
  by (simp add: round53_def Let_def rne_minus)

lemma round53_pos_bounds:
  assumes "0 < x"
  shows "2 powr of_int \<lfloor>log 2 x\<rfloor> \<le> round53 x \<and> round53 x \<le> 2 powr of_int (\<lfloor>log 2 x\<rfloor> + 1)"
proof -
  define e where "e = \<lfloor>log 2 x\<rfloor>"
  define u :: real where "u = 2 powr of_int (e - 52)"
  have u: "0 < u" by (simp add: u_def)
  have b: "2 powr of_int e \<le> x" "x < 2 powr of_int (e + 1)"
    using binade [OF assms] by (simp_all add: e_def)
  have lo: "2 powr of_int e = of_int (2 ^ 52) * u"
    unfolding u_def  by (simp add: powr_diff flip: powr_numeral)
  have hi: "2 powr of_int (e + 1) = of_int (2 ^ 53) * u"
    unfolding u_def by (simp add: powr_diff powr_add flip: powr_numeral)
  have "of_int (2 ^ 52) \<le> x / u" using b(1) u unfolding lo by (simp add: pos_le_divide_eq)
  then have 1: "2 ^ 52 \<le> rne (x / u)" using rne_mono rne_of_int by metis
  have "x / u \<le> of_int (2 ^ 53)" using b(2) u unfolding hi by (simp add: pos_divide_le_eq)
  then have 2: "rne (x / u) \<le> 2 ^ 53" using rne_mono rne_of_int by metis
  have r: "round53 x = of_int (rne (x / u)) * u"
    using assms by (simp add: round53_def u_def e_def Let_def)
  have "of_int (2 ^ 52) * u \<le> of_int (rne (x / u)) * u"
    using 1 u by (intro mult_right_mono) (simp_all only: of_int_le_iff less_imp_le)
  moreover have "of_int (rne (x / u)) * u \<le> of_int (2 ^ 53) * u"
    using 2 u by (intro mult_right_mono) (simp_all only: of_int_le_iff less_imp_le)
  ultimately show ?thesis unfolding r lo hi e_def [symmetric] by simp
qed

lemma round53_pos: "0 < x \<Longrightarrow> 0 < round53 x"
  using round53_pos_bounds [of x] powr_gt_zero [of 2 "of_int \<lfloor>log 2 x\<rfloor>"] by linarith

lemma round53_mono_pos:
  assumes "0 < x" "x \<le> y"
  shows "round53 x \<le> round53 y"
proof -
  have y: "0 < y" using assms by simp
  have le: "\<lfloor>log 2 x\<rfloor> \<le> \<lfloor>log 2 y\<rfloor>"
    using assms by (intro floor_mono) simp
  show ?thesis
  proof (cases "\<lfloor>log 2 x\<rfloor> = \<lfloor>log 2 y\<rfloor>")
    case True
    define u :: real where "u = 2 powr of_int (\<lfloor>log 2 y\<rfloor> - 52)"
    have u: "0 < u" by (simp add: u_def)
    have "x / u \<le> y / u" using assms u by (simp add: divide_right_mono)
    then have "rne (x / u) \<le> rne (y / u)" by (rule rne_mono)
    then have "of_int (rne (x / u)) * u \<le> of_int (rne (y / u)) * u"
      using u by (intro mult_right_mono) simp_all
    moreover have "round53 x = of_int (rne (x / u)) * u"
      using assms(1) True by (simp add: round53_def u_def Let_def)
    moreover have "round53 y = of_int (rne (y / u)) * u"
      using y by (simp add: round53_def u_def Let_def)
    ultimately show ?thesis by simp
  next
    case False
    with le have "\<lfloor>log 2 x\<rfloor> + 1 \<le> \<lfloor>log 2 y\<rfloor>" by simp
    then have "(2::real) powr of_int (\<lfloor>log 2 x\<rfloor> + 1) \<le> 2 powr of_int \<lfloor>log 2 y\<rfloor>"
      by (intro powr_mono) simp_all
    with round53_pos_bounds [OF assms(1)] round53_pos_bounds [OF y] show ?thesis by linarith
  qed
qed

lemma round53_zero: "round53 0 = 0" by (simp add: round53_def)

lemma round53_mono: "x \<le> y \<Longrightarrow> round53 x \<le> round53 y"
proof -
  assume xy: "x \<le> y"
  consider "0 < x" | "x = 0" "y = 0" | "x = 0" "0 < y" | "x < 0" "0 < y" | "x < 0" "y = 0" | "x < 0" "y < 0"
    using xy by linarith
  then show ?thesis
  proof cases
    case 1 then show ?thesis using xy by (rule round53_mono_pos)
  next
    case 2 then show ?thesis by simp
  next
    case 3 then show ?thesis using round53_pos [of y] by (simp add: round53_zero)
  next
    case 4 then show ?thesis using round53_pos [of y] round53_pos [of "- x"] by (simp add: round53_minus)
  next
    case 5 then show ?thesis using round53_pos [of "- x"] by (simp add: round53_minus round53_zero)
  next
    case 6 then show ?thesis using round53_mono_pos [of "- y" "- x"] xy by (simp add: round53_minus)
  qed
qed

lemmas round53_numeral = rne_def Let_def powr_neg_numeral powr_numeral

lemma round53_2: "round53 2 = 2"
  by (subst round53_eval [of 1]) (simp_all add: round53_numeral)

lemma round53_3_2: "round53 (3/2) = 3/2"
  by (subst round53_eval [of 0]) (simp_all add: round53_numeral)

lemma round53_5_2: "round53 (5/2) = 5/2"
  by (subst round53_eval [of 1]) (simp_all add: round53_numeral)

lemma round53_7_2: "round53 (7/2) = 7/2"
  by (subst round53_eval [of 1]) (simp_all add: round53_numeral)

lemma round53_m5: "round53 (- 5) = - 5"
  by (subst round53_eval [of 2]) (simp_all add: round53_numeral)

lemma round53_tie_to_even: "round53 (7/2 - 1/2^52) = 7/2"
  by (subst round53_eval [of 1]) (simp_all add: round53_numeral)

lemma round53_below_1: "round53 (1 - 1/2^53) = 1 - 1/2^53"
  by (subst round53_eval [of "- 1"]) (simp_all add: round53_numeral)

lemma round53_3_10: "round53 (3/10) = 5404319552844595 / 2^54"
  by (subst round53_eval [of "- 2"]) (simp_all add: round53_numeral)

lemma round53_half: "round53 (1/2) = 1/2"
  by (subst round53_eval [of "- 1"]) (simp_all add: round53_numeral)

lemma round53_quarter: "round53 (1/4) = 1/4"
  by (subst round53_eval [of "- 2"]) (simp_all add: round53_numeral)

subsection \<open>The entries of \<^verbatim>\<open>test_data\<close>\<close>

text \<open>
  The bounds of one entry of each column follow from the monotonicity of rounding and
  from the bounds themselves being floats.
\<close>

lemma col0_bounds:
  assumes "0 \<le> x" "x < 1"
  shows "3/2 \<le> fadd (fmul x 2) (3/2) \<and> fadd (fmul x 2) (3/2) \<le> 7/2"
proof -
  have "round53 0 \<le> fmul x 2" unfolding fmul_def using assms by (intro round53_mono) simp
  then have lo: "0 \<le> fmul x 2" by (simp add: round53_zero)
  have "fmul x 2 \<le> round53 2" unfolding fmul_def using assms by (intro round53_mono) simp
  then have hi: "fmul x 2 \<le> 2" by (simp add: round53_2)
  have "round53 (3/2) \<le> fadd (fmul x 2) (3/2)"
    unfolding fadd_def using lo by (intro round53_mono) simp
  moreover have "fadd (fmul x 2) (3/2) \<le> round53 (7/2)"
    unfolding fadd_def using hi by (intro round53_mono) simp
  ultimately show ?thesis by (simp add: round53_3_2 round53_7_2)
qed

lemma col2_bounds:
  assumes "- 50 \<le> n" "n < 25"
  shows "- 5 \<le> fdiv (of_int n) 10 \<and> fdiv (of_int n) 10 \<le> round53 (24/10)"
proof -
  have "(- 50 :: real) \<le> of_int n" using assms(1) by linarith
  then have "round53 (- 5) \<le> fdiv (of_int n) 10"
    unfolding fdiv_def by (intro round53_mono) simp
  moreover have "n \<le> 24" using assms(2) by simp
  then have "real_of_int n \<le> 24" by linarith
  then have "fdiv (of_int n) 10 \<le> round53 (24/10)"
    unfolding fdiv_def by (intro round53_mono) simp
  ultimately show ?thesis by (simp add: round53_m5)
qed

lemma col3_arg:
  assumes "0 \<le> x" "x < 1"
  shows "3/2 \<le> fadd x (3/2) \<and> fadd x (3/2) \<le> 5/2"
proof -
  have "round53 (3/2) \<le> fadd x (3/2)"
    unfolding fadd_def using assms by (intro round53_mono) simp
  moreover have "fadd x (3/2) \<le> round53 (5/2)"
    unfolding fadd_def using assms by (intro round53_mono) simp
  ultimately show ?thesis by (simp add: round53_3_2 round53_5_2)
qed

lemma col3_pos:
  assumes "exp_accurate f" "3/2 \<le> y" "y \<le> 5/2"
  shows "0 < f y"
proof -
  have "\<bar>f y - exp y\<bar> \<le> exp y / 2^52"
    using assms by (simp add: exp_accurate_def)
  moreover have "exp y / 2^52 < exp y" by simp
  ultimately show ?thesis by linarith
qed

text \<open>Rounding moves a positive number by at most half a unit in the last place.\<close>

lemma rne_error: "\<bar>of_int (rne y) - y\<bar> \<le> 1/2"
  by (simp add: rne_def Let_def)

lemma round53_error:
  assumes "0 < x"
  shows "\<bar>round53 x - x\<bar> \<le> x / 2^53"
proof -
  define u :: real where "u = 2 powr of_int (\<lfloor>log 2 x\<rfloor> - 52)"
  have u: "0 < u" by (simp add: u_def)
  have "2 powr of_int \<lfloor>log 2 x\<rfloor> = 2^52 * u"
    unfolding u_def by (simp add: powr_diff flip: powr_numeral)
  then have ux: "2^52 * u \<le> x" using binade [OF assms] by simp
  have r: "round53 x = of_int (rne (x / u)) * u"
    using assms by (simp add: round53_def u_def Let_def)
  have "round53 x - x = (of_int (rne (x / u)) - x / u) * u"
    using u by (simp add: r algebra_simps)
  then have "\<bar>round53 x - x\<bar> = \<bar>of_int (rne (x / u)) - x / u\<bar> * u"
    using u by (simp add: abs_mult)
  also have "\<dots> \<le> 1/2 * u"
    using rne_error [of "x / u"] u by (intro mult_right_mono) simp_all
  also have "\<dots> \<le> x / 2^53" using ux by simp
  finally show ?thesis .
qed

lemma exp_accurate_rounded: "exp_accurate exp_rounded"
proof -
  have "\<bar>round53 (exp y) - exp y\<bar> \<le> exp y / 2^52" for y :: real
  proof -
    have "\<bar>round53 (exp y) - exp y\<bar> \<le> exp y / 2^53" by (rule round53_error) simp
    moreover have "exp y / 2^53 \<le> exp y / 2^52" by simp
    ultimately show ?thesis by linarith
  qed
  then show ?thesis by (simp add: exp_accurate_def exp_rounded_def)
qed

text \<open>
  The four column assignments succeed and fill every row: the table is known entry by
  entry, and nothing of the uninitialised memory is left in it.
\<close>

lemma set_col_rows:
  assumes "length xs = n" "\<And>i. i < n \<Longrightarrow> j < length (f i)"
  shows "set_col j xs (map f [0..<n]) = Inr (map (\<lambda>i. (f i)[j := xs ! i]) [0..<n])"
proof -
  have "map2 (\<lambda>row x. row[j := x]) (map f [0..<n]) xs = map (\<lambda>i. (f i)[j := xs ! i]) [0..<n]"
    using assms(1) by (intro nth_equalityI) simp_all
  moreover have "\<not> (\<exists>row\<in>set (map f [0..<n]). length row \<le> j)"
    using assms(2) by (auto simp: not_le)
  ultimately show ?thesis using assms(1) by (simp add: set_col_def)
qed

lemma upt_4: "[0..<4] = [0, 1, 2, 3]"
  by (simp add: upt_rec)

lemma test_data_rows:
  assumes "numpy_draws d"
  shows "test_data np_exp mem d = Inr (map (\<lambda>i. [fadd (fmul (random_0 d ! i) 2) (3/2), randn_1 d ! i,
            fdiv (of_int (randint_2 d ! i)) 10, np_exp (fadd (random_3 d ! i) (3/2))]) [0..<rows])"
proof -
  have len: "length (random_0 d) = rows" "length (randn_1 d) = rows"
    "length (randint_2 d) = rows" "length (random_3 d) = rows"
    using assms by (simp_all add: numpy_draws_def)
  show ?thesis
    unfolding test_data_def np_empty_def
    by (simp add: set_col_rows len and_then_def upt_4 cong: map_cong)
qed


lemma fmul_below_2: "fmul (1 - 1/2^53) 2 = 2 - 1/2^52"
proof -
  have "round53 (2 - 1/2^52) = 2 - 1/2^52"
    by (subst round53_eval [of 0]) (simp_all add: round53_numeral)
  then show ?thesis by (simp add: fmul_def)
qed

lemma col0_extreme: "fadd (fmul (1 - 1/2^53) 2) (3/2) = 7/2"
proof -
  have "fadd (2 - 1/2^52) (3/2) = round53 (7/2 - 1/2^52)" by (simp add: fadd_def)
  then show ?thesis by (simp only: fmul_below_2 round53_tie_to_even)
qed

lemma col2_three: "fdiv (of_int 3) 10 = 5404319552844595 / 2^54"
  using round53_3_10 by (simp add: fdiv_def)

lemma col2_m50: "fdiv (of_int (- 50)) 10 = - 5"
  using round53_m5 by (simp add: fdiv_def)

lemma numpy_draws_extreme: "numpy_draws extreme_draws"
  using round53_below_1 by (simp add: numpy_draws_def extreme_draws_def rows_def is_double_def round53_zero)

lemma extreme_row:
  assumes "i < rows"
  shows "[fadd (fmul (random_0 extreme_draws ! i) 2) (3/2), randn_1 extreme_draws ! i,
          fdiv (of_int (randint_2 extreme_draws ! i)) 10,
          f (fadd (random_3 extreme_draws ! i) (3/2))]
         = [7/2, 0, 5404319552844595 / 2^54, f (3/2)]"
proof -
  have i: "i < 100" using assms by (simp add: rows_def)
  have sel: "random_0 extreme_draws ! i = 1 - 1/2^53" "randn_1 extreme_draws ! i = 0"
    "randint_2 extreme_draws ! i = 3" "random_3 extreme_draws ! i = 0"
    using i by (simp_all add: extreme_draws_def)
  have e: "fadd 0 (3/2) = 3/2" using round53_3_2 by (simp add: fadd_def)
  show ?thesis by (simp only: sel col0_extreme col2_three e)
qed

lemma numpy_draws_typical: "numpy_draws typical_draws"
  using round53_half round53_quarter round53_minus [of "1/4"]
  by (simp add: numpy_draws_def typical_draws_def rows_def is_double_def)

text \<open>
  Claim C9, as amended. Whatever the generator returns within its documented ranges, and
  whatever \<^verbatim>\<open>np.exp\<close> is as long as it is accurate to \<open>2\<^sup>-\<^sup>5\<^sup>2\<close> of the exponential between
  1.5 and 2.5, the data cell succeeds and builds a table of 100 rows and 4 columns in
  which column 0 lies in the closed interval from 1.5 to 3.5, column 2 is the float
  quotient \<open>n / 10\<close> of an integer \<open>n\<close> with \<open>-50 \<le> n \<le> 24\<close> and lies between \<open>-5.0\<close> and the
  float \<open>2.4\<close>, and column 3 is what \<^verbatim>\<open>np.exp\<close> returns for the float sum \<open>r + 1.5\<close> of some
  \<open>r\<close> with \<open>0 \<le> r < 1\<close> and is strictly positive.
\<close>

theorem test_data_column_bounds:
  assumes "numpy_draws d" and "exp_accurate np_exp"
  shows "\<exists>t. test_data np_exp mem d = Inr t \<and> length t = 100 \<and>
           (\<forall>row\<in>set t. length row = 4 \<and>
              3/2 \<le> row ! 0 \<and> row ! 0 \<le> 7/2 \<and>
              (\<exists>n. - 50 \<le> n \<and> n \<le> 24 \<and> row ! 2 = fdiv (of_int n) 10) \<and>
              - 5 \<le> row ! 2 \<and> row ! 2 \<le> fdiv 24 10 \<and>
              (\<exists>r. 0 \<le> r \<and> r < 1 \<and> row ! 3 = np_exp (fadd r (3/2))) \<and>
              0 < row ! 3)"
proof -
  define t where "t = map (\<lambda>i. [fadd (fmul (random_0 d ! i) 2) (3/2), randn_1 d ! i,
            fdiv (of_int (randint_2 d ! i)) 10, np_exp (fadd (random_3 d ! i) (3/2))]) [0..<rows]"
  have run: "test_data np_exp mem d = Inr t"
    unfolding t_def using assms(1) by (rule test_data_rows)
  have len: "length t = 100" by (simp add: t_def rows_def)
  have "length row = 4 \<and>
              3/2 \<le> row ! 0 \<and> row ! 0 \<le> 7/2 \<and>
              (\<exists>n. - 50 \<le> n \<and> n \<le> 24 \<and> row ! 2 = fdiv (of_int n) 10) \<and>
              - 5 \<le> row ! 2 \<and> row ! 2 \<le> fdiv 24 10 \<and>
              (\<exists>r. 0 \<le> r \<and> r < 1 \<and> row ! 3 = np_exp (fadd r (3/2))) \<and>
              0 < row ! 3" if "row \<in> set t" for row
  proof -
    from that obtain i where i: "i < rows"
      and row: "row = [fadd (fmul (random_0 d ! i) 2) (3/2), randn_1 d ! i,
            fdiv (of_int (randint_2 d ! i)) 10, np_exp (fadd (random_3 d ! i) (3/2))]"
      by (auto simp: t_def)
    have "random_0 d ! i \<in> set (random_0 d)" "randint_2 d ! i \<in> set (randint_2 d)"
      "random_3 d ! i \<in> set (random_3 d)"
      using assms i by (simp_all add: numpy_draws_def)
    then have x: "0 \<le> random_0 d ! i" "random_0 d ! i < 1"
      and n: "- 50 \<le> randint_2 d ! i" "randint_2 d ! i < 25"
      and r: "0 \<le> random_3 d ! i" "random_3 d ! i < 1"
      using assms by (simp_all add: numpy_draws_def)
    have c2: "- 5 \<le> fdiv (of_int (randint_2 d ! i)) 10"
      "fdiv (of_int (randint_2 d ! i)) 10 \<le> fdiv 24 10"
      using col2_bounds [OF n] by (simp_all add: fdiv_def)
    have n': "randint_2 d ! i \<le> 24" using n(2) by simp
    have c3: "0 < np_exp (fadd (random_3 d ! i) (3/2))"
      using col3_pos [OF assms(2)] col3_arg [OF r] by blast
    show ?thesis
      unfolding row using col0_bounds [OF x] c2 n(1) n' r c3
      by (simp only: list.size nth_Cons_0 nth_Cons_numeral nth_Cons_Suc numeral_2_eq_2
          numeral_3_eq_3) auto
  qed
  with run len show ?thesis by blast
qed

text \<open>
  The theorem at \<open>typical_draws\<close>, which are draws numpy can return: every uniform draw
  is 0.5 or 0.25, every normal draw is -0.25, every integer is -50. The exponential is
  the correctly rounded one.
\<close>

theorem test_data_column_bounds_witness:
  "numpy_draws typical_draws \<and> exp_accurate exp_rounded \<and>
   (\<exists>t. test_data exp_rounded (\<lambda>i j. 0) typical_draws = Inr t \<and> length t = 100 \<and>
           (\<forall>row\<in>set t. length row = 4 \<and>
              3/2 \<le> row ! 0 \<and> row ! 0 \<le> 7/2 \<and>
              (\<exists>n. - 50 \<le> n \<and> n \<le> 24 \<and> row ! 2 = fdiv (of_int n) 10) \<and>
              - 5 \<le> row ! 2 \<and> row ! 2 \<le> fdiv 24 10 \<and>
              (\<exists>r. 0 \<le> r \<and> r < 1 \<and> row ! 3 = exp_rounded (fadd r (3/2))) \<and>
              0 < row ! 3))"
proof -
  have h: "numpy_draws typical_draws" by (rule numpy_draws_typical)
  have a: "exp_accurate exp_rounded" by (rule exp_accurate_rounded)
  show ?thesis using h a test_data_column_bounds [OF h a, of "\<lambda>i j. 0"] by simp
qed

text \<open>
  Claim C9 as it is stated fails. It puts column 0 in the half-open interval from 1.5 to
  3.5 and makes column 2 an integer multiple of 0.1. At \<open>extreme_draws\<close> every uniform
  draw of column 0 is \<open>1 - 2\<^sup>-\<^sup>5\<^sup>3\<close>, the largest float below 1, and every integer is 3.
  Doubling the draw is exact; adding 1.5 gives \<open>3.5 - 2\<^sup>-\<^sup>5\<^sup>2\<close>, which lies half way between
  two floats and rounds to the even one, 3.5. The quotient \<open>3 / 10\<close> is the float nearest
  to 0.3, which lies strictly between 0.2 and 0.3. So the cell returns a table whose every
  row starts with 3.5 and holds in column 2 a number that is no multiple of a tenth. The
  exponential, here the correctly rounded one, plays no part in either.
\<close>

theorem test_data_column_0_reaches_upper_bound:
  "numpy_draws extreme_draws \<and>
   test_data exp_rounded (\<lambda>i j. 0) extreme_draws =
     Inr (replicate 100 [7/2, 0, 5404319552844595 / 2^54, exp_rounded (3/2)]) \<and>
   \<not> [7/2, 0, 5404319552844595 / 2^54, exp_rounded (3/2)] ! 0 < (7/2 :: real) \<and>
   (2/10 :: real) < [7/2, 0, 5404319552844595 / 2^54, exp_rounded (3/2)] ! 2 \<and>
   [7/2, 0, 5404319552844595 / 2^54, exp_rounded (3/2)] ! 2 < (3/10 :: real)"
proof -
  have "map (\<lambda>i. [fadd (fmul (random_0 extreme_draws ! i) 2) (3/2), randn_1 extreme_draws ! i,
          fdiv (of_int (randint_2 extreme_draws ! i)) 10,
          exp_rounded (fadd (random_3 extreme_draws ! i) (3/2))]) [0..<rows]
        = replicate 100 [7/2, 0, 5404319552844595 / 2^54, exp_rounded (3/2)]"
    by (rule replicate_eqI) (auto simp: rows_def extreme_row)
  then have "test_data exp_rounded (\<lambda>i j. 0) extreme_draws =
     Inr (replicate 100 [7/2, 0, 5404319552844595 / 2^54, exp_rounded (3/2)])"
    by (simp only: test_data_rows [OF numpy_draws_extreme])
  then show ?thesis using numpy_draws_extreme by simp
qed

subsection \<open>Exceptions in a cell\<close>

lemma exec_list_append:
  "exec_list lib sh (pre @ post) s =
     (case exec_list lib sh pre s of Inl err \<Rightarrow> Inl err | Inr s' \<Rightarrow> exec_list lib sh post s')"
  by (induction pre arbitrary: s) (auto split: sum.splits)

text \<open>
  In a sequence of plain actions, an exception that ends the sequence is the exception of
  the action that was reached and failed, in the state the actions before it produced.
\<close>

lemma raised_is_library_error:
  "list_all is_action cell \<Longrightarrow> exec_list lib sh cell s = Inl (e, s') \<Longrightarrow>
     \<exists>pre a post. cell = pre @ Do a # post \<and> exec_list lib sh pre s = Inr s' \<and> lib a s' = Inl e"
proof (induction cell arbitrary: s)
  case Nil
  then show ?case by simp
next
  case (Cons x xs)
  from Cons.prems(1) obtain a0 where x: "x = Do a0" and xs: "list_all is_action xs"
    by (cases x) simp_all
  show ?case
  proof (cases "lib a0 s")
    case (Inl e0)
    with Cons.prems(2) x have "e = e0" "s' = s" by simp_all
    with Inl x
    have "x # xs = [] @ Do a0 # xs \<and> exec_list lib sh [] s = Inr s' \<and> lib a0 s' = Inl e"
      by simp
    then show ?thesis by blast
  next
    case (Inr s1)
    with Cons.prems(2) x have "exec_list lib sh xs s1 = Inl (e, s')" by simp
    from Cons.IH [OF xs this] obtain pre a post where
      d: "xs = pre @ Do a # post" "exec_list lib sh pre s1 = Inr s'" "lib a s' = Inl e" by blast
    have "x # xs = (x # pre) @ Do a # post \<and> exec_list lib sh (x # pre) s = Inr s' \<and>
        lib a s' = Inl e"
      using d x Inr by simp
    then show ?thesis by blast
  qed
qed

lemma library_error_is_raised:
  "exec_list lib sh pre s = Inr s' \<Longrightarrow> lib a s' = Inl e \<Longrightarrow>
     exec_list lib sh (pre @ Do a # post) s = Inl (e, s')"
  by (simp add: exec_list_append)

lemma plain_cell_errors:
  assumes "list_all is_action cell"
  shows "exec_list lib sh cell s = Inl (e, s') \<longleftrightarrow>
           (\<exists>pre a post. cell = pre @ Do a # post \<and> exec_list lib sh pre s = Inr s' \<and>
              lib a s' = Inl e)"
  using raised_is_library_error [OF assms] library_error_is_raised by metis

text \<open>
  A \<^verbatim>\<open>try\<close> is what breaks this, and so does a cell magic that catches: the exception of
  the body is swallowed and the statement completes.
\<close>

lemma try_recovers:
  "lib a s = Inl e \<Longrightarrow> exec_list lib sh [Try [Do a] []] s = Inr s"
  by simp

lemma catching_timer_recovers:
  "lib a s = Inl e \<Longrightarrow> exec_list lib catching_timer [CellMagic name [Do a]] s = Inr s"
  by (simp add: catching_timer_def)

lemma exec_cell_magic:
  "exec_list lib sh [CellMagic name body] s = sh name (exec_list lib sh body) s"
  by (simp split: sum.split)

lemma notebook_plain_cells: "cell \<in> set (butlast notebook) \<Longrightarrow> list_all is_action cell"
  by (auto simp: notebook_def)

lemma notebook_timed_cell:
  "\<exists>body. last notebook = [CellMagic ''time'' body] \<and> list_all is_action body"
  by (simp add: notebook_def)

text \<open>
  Claim C6, as amended. Every code cell but the last is a sequence of plain actions, with
  no \<^verbatim>\<open>try\<close> and no cell magic, and for every library, shell and state of the session it
  ends with exception \<open>e\<close> exactly when one of its actions, reached after all the actions
  before it succeeded, raised \<open>e\<close>: the cell neither catches nor replaces an exception of
  the library, and raises nothing else. The last cell is the cell magic \<^verbatim>\<open>%%time\<close> around
  such a sequence. The same holds of its body, whose exception therefore reaches the
  magic unchanged; what the cell then returns is what the shell's code for \<^verbatim>\<open>%%time\<close>
  returns.
\<close>

theorem cell_raises_the_library_error:
  "(\<forall>cell\<in>set (butlast notebook).
      list_all is_action cell \<and>
      (\<forall>s e s'. exec_list lib sh cell s = Inl (e, s') \<longleftrightarrow>
         (\<exists>pre a post. cell = pre @ Do a # post \<and> exec_list lib sh pre s = Inr s' \<and>
            lib a s' = Inl e))) \<and>
   (\<exists>body. last notebook = [CellMagic ''time'' body] \<and> list_all is_action body \<and>
      (\<forall>s e s'. exec_list lib sh body s = Inl (e, s') \<longleftrightarrow>
         (\<exists>pre a post. body = pre @ Do a # post \<and> exec_list lib sh pre s = Inr s' \<and>
            lib a s' = Inl e)) \<and>
      (\<forall>s. exec_list lib sh (last notebook) s = sh ''time'' (exec_list lib sh body) s))"
proof (intro conjI ballI)
  fix cell assume "cell \<in> set (butlast notebook)"
  then have p: "list_all is_action cell" by (rule notebook_plain_cells)
  then show "list_all is_action cell" .
  show "\<forall>s e s'. exec_list lib sh cell s = Inl (e, s') \<longleftrightarrow>
         (\<exists>pre a post. cell = pre @ Do a # post \<and> exec_list lib sh pre s = Inr s' \<and>
            lib a s' = Inl e)"
    by (intro allI) (rule plain_cell_errors [OF p])
next
  from notebook_timed_cell obtain body where
    b: "last notebook = [CellMagic ''time'' body]" and p: "list_all is_action body" by blast
  have h1: "\<forall>s e s'. exec_list lib sh body s = Inl (e, s') \<longleftrightarrow>
         (\<exists>pre a post. body = pre @ Do a # post \<and> exec_list lib sh pre s = Inr s' \<and>
            lib a s' = Inl e)"
    by (intro allI) (rule plain_cell_errors [OF p])
  have h2: "\<forall>s. exec_list lib sh (last notebook) s = sh ''time'' (exec_list lib sh body) s"
    unfolding b by (intro allI) (rule exec_cell_magic)
  show "\<exists>body. last notebook = [CellMagic ''time'' body] \<and> list_all is_action body \<and>
      (\<forall>s e s'. exec_list lib sh body s = Inl (e, s') \<longleftrightarrow>
         (\<exists>pre a post. body = pre @ Do a # post \<and> exec_list lib sh pre s = Inr s' \<and>
            lib a s' = Inl e)) \<and>
      (\<forall>s. exec_list lib sh (last notebook) s = sh ''time'' (exec_list lib sh body) s)"
    by (rule exI [of _ body]) (rule conjI b p h1 h2)+
qed

text \<open>
  The theorem at the data cell, run with a library in which \<^verbatim>\<open>np.exp\<close> raises: the twelve
  actions before \<^verbatim>\<open>np.exp\<close> succeed, \<^verbatim>\<open>np.exp\<close> raises, and that exception is the cell's
  result.
\<close>

theorem cell_raises_the_library_error_witness:
  "notebook ! 1 \<in> set (butlast notebook) \<and>
   exec_list (fails_at (Call ''np.exp'')) catching_timer (notebook ! 1) 0
     = Inl (''ValueError'', 12)"
proof -
  define pre where "pre = take 12 (notebook ! 1)"
  define post where "post = drop 13 (notebook ! 1)"
  have mem: "notebook ! 1 \<in> set (butlast notebook)" by (simp add: notebook_def)
  have split: "notebook ! 1 = pre @ Do (Call ''np.exp'') # post"
    by (simp add: pre_def post_def notebook_def)
  have before: "exec_list (fails_at (Call ''np.exp'')) catching_timer pre 0 = Inr 12"
    by (simp add: pre_def notebook_def fails_at_def)
  have fails: "fails_at (Call ''np.exp'') (Call ''np.exp'') 12 = Inl ''ValueError''"
    by (simp add: fails_at_def)
  have "\<forall>s e s'. exec_list (fails_at (Call ''np.exp'')) catching_timer (notebook ! 1) s
            = Inl (e, s') \<longleftrightarrow>
          (\<exists>pre a post. notebook ! 1 = pre @ Do a # post \<and>
             exec_list (fails_at (Call ''np.exp'')) catching_timer pre s = Inr s' \<and>
             fails_at (Call ''np.exp'') a s' = Inl e)"
    using cell_raises_the_library_error [of "fails_at (Call ''np.exp'')" catching_timer] mem
    by (elim conjE) (drule bspec, assumption, elim conjE)
  then have "exec_list (fails_at (Call ''np.exp'')) catching_timer (notebook ! 1) 0
          = Inl (''ValueError'', 12)"
    using split before fails by blast
  with mem show ?thesis by simp
qed

text \<open>
  Claim C6 as it is stated fails at the last cell, which it includes. Take a library in
  which \<^verbatim>\<open>rfecv.fit\<close> raises. Under a timer that lets exceptions through, the three actions
  before \<^verbatim>\<open>rfecv.fit\<close> succeed and the cell ends with the exception, raised in state 3.
  Under the timer of IPython up to version 8 the same run returns normally in state 3:
  the exception has been caught, not propagated.
\<close>

theorem timed_cell_swallows_the_library_error:
  "exec_list (fails_at (Call ''rfecv.fit'')) passing_timer (last notebook) 0
     = Inl (''ValueError'', 3) \<and>
   exec_list (fails_at (Call ''rfecv.fit'')) catching_timer (last notebook) 0 = Inr 3"
  by (simp add: notebook_def fails_at_def catching_timer_def passing_timer_def)

end
